theory Spec2Isabelle
  imports Complex_Main
begin

section \<open>Python values of the web front-end\<close>

text \<open>
  The program is \<^verbatim>\<open>src/app.py\<close>: a Flask application with the helpers
  \<^verbatim>\<open>graphrag_cli_query\<close> and \<^verbatim>\<open>load_datasets\<close> and the two routes
  \<^verbatim>\<open>index\<close> and \<^verbatim>\<open>ask\<close>.

  A Python \<^verbatim>\<open>str\<close> is a sequence of Unicode code points, so it is a list of
  naturals here; \<open>lit\<close> turns a literal of the source into that list.
\<close>

type_synonym pystr = "nat list"

definition lit :: "string \<Rightarrow> pystr" where
  "lit s = map of_char s"

text \<open>
  \<^verbatim>\<open>str.strip()\<close> removes the leading and trailing characters for which
  \<^verbatim>\<open>str.isspace\<close> holds: TAB..CR, FS..US, SPACE, NEL, NBSP and the Unicode
  space separators.
\<close>

definition py_isspace :: "nat \<Rightarrow> bool" where
  "py_isspace c \<longleftrightarrow>
     (9 \<le> c \<and> c \<le> 13) \<or> (28 \<le> c \<and> c \<le> 32) \<or> c = 133 \<or> c = 160 \<or> c = 5760 \<or>
     (8192 \<le> c \<and> c \<le> 8202) \<or> c = 8232 \<or> c = 8233 \<or> c = 8239 \<or> c = 8287 \<or> c = 12288"

definition strip :: "pystr \<Rightarrow> pystr" where
  "strip s = rev (dropWhile py_isspace (rev (dropWhile py_isspace s)))"

text \<open>
  What \<^verbatim>\<open>json.load\<close> can return. A JSON object becomes a \<^verbatim>\<open>dict\<close> with
  \<^verbatim>\<open>str\<close> keys, kept as its items in insertion order. A float is only ever
  compared with other dictionary keys in this program, so it is represented by the
  number it denotes.
\<close>

datatype pyfloat = Finite rat | PosInf | NegInf | NaN

datatype pyval =
    PNone
  | PBool bool
  | PInt int
  | PFloat pyfloat
  | PStr pystr
  | PList "pyval list"
  | PDict "(pystr \<times> pyval) list"

text \<open>The exception classes that occur; \<open>CalledProcessError\<close> carries
  \<^verbatim>\<open>returncode\<close>, \<^verbatim>\<open>cmd\<close>, \<^verbatim>\<open>stdout\<close> and \<^verbatim>\<open>stderr\<close>. Each constructor
  is one class: \<open>ValueError\<close> is an exception of that class itself, not of its subclasses
  \<open>UnicodeDecodeError\<close> and \<open>JSONDecodeError\<close>.\<close>

datatype py_exc =
    OSError
  | UnicodeDecodeError
  | JSONDecodeError pystr
  | ValueError
  | TypeError
  | KeyError
  | CalledProcessError int "pystr list" pystr pystr
  | OtherError

section \<open>Effects\<close>

text \<open>
  The observable effects of a call are logged in order: a line written by
  \<^verbatim>\<open>print\<close>, a message stored by \<^verbatim>\<open>flash(message, category)\<close>, and a call of
  \<^verbatim>\<open>subprocess.run\<close> with its argument vector, the only place where a child process
  is started. A computation yields its log and either the exception it raised or its
  value.
\<close>

datatype event =
    Printed pystr
  | Flashed pystr pystr
  | SubprocessRun "pystr list"

type_synonym 'a io = "event list \<times> (py_exc + 'a)"

definition io_return :: "'a \<Rightarrow> 'a io" where
  "io_return x = ([], Inr x)"

definition io_raise :: "py_exc \<Rightarrow> 'a io" where
  "io_raise e = ([], Inl e)"

definition io_lift :: "py_exc + 'a \<Rightarrow> 'a io" where
  "io_lift r = ([], r)"

definition io_emit :: "event \<Rightarrow> unit io" where
  "io_emit ev = ([ev], Inr ())"

definition io_bind :: "'a io \<Rightarrow> ('a \<Rightarrow> 'b io) \<Rightarrow> 'b io" where
  "io_bind m f =
     (case m of
        (evs, Inl e) \<Rightarrow> (evs, Inl e)
      | (evs, Inr x) \<Rightarrow> (case f x of (evs', r) \<Rightarrow> (evs @ evs', r)))"

text \<open>\<^verbatim>\<open>try: m except ...: h\<close>, the handler re-raising what its clause does not name.\<close>

definition io_catch :: "'a io \<Rightarrow> (py_exc \<Rightarrow> 'a io) \<Rightarrow> 'a io" where
  "io_catch m h =
     (case m of
        (evs, Inl e) \<Rightarrow> (case h e of (evs', r) \<Rightarrow> (evs @ evs', r))
      | (evs, Inr x) \<Rightarrow> (evs, Inr x))"

section \<open>The world outside the process\<close>

text \<open>
  \<^verbatim>\<open>subprocess.run(..., capture_output=True, text=True)\<close> gives a
  \<^verbatim>\<open>CompletedProcess\<close> whose streams are text.
\<close>

record completed_process =
  returncode :: int
  stdout :: pystr
  stderr :: pystr

text \<open>
  \<^verbatim>\<open>subprocess.run\<close> does not always get that far. The executable may not start
  (\<open>OSError\<close>); an argument with a NUL character is refused before any process exists
  (\<open>ValueError\<close>); and a process that ran to its end, with whatever exit code, may have
  written bytes that are not text in the encoding of the locale, so that decoding the
  captured output raises \<open>UnicodeDecodeError\<close> before the exit code is looked at.
\<close>

datatype child_failure =
    NotExecutable
  | NullInArgument
  | Undecodable int

fun child_exception :: "child_failure \<Rightarrow> py_exc" where
  "child_exception NotExecutable = OSError"
| "child_exception NullInArgument = ValueError"
| "child_exception (Undecodable rc) = UnicodeDecodeError"

text \<open>
  The library calls of the program reach the file system and the operating system;
  their outcomes are the environment of a request:
  \<^item> \<open>listing_exists\<close>: \<^verbatim>\<open>listing.exists()\<close>;
  \<^item> \<open>listing_open\<close>: the exception of \<^verbatim>\<open>listing.open(encoding="utf-8")\<close>, if it raises;
  \<^item> \<open>json_load\<close>: \<^verbatim>\<open>json.load(f)\<close> on the opened file, which reads and decodes it
    (\<open>UnicodeDecodeError\<close>), parses it (\<open>JSONDecodeError\<close> with its message; \<open>ValueError\<close>
    for an integer literal with more digits than the interpreter converts) and returns
    the value;
  \<^item> \<open>child\<close>: what starting the argument vector and waiting for the process yields: the
    completed process with its exit code and its output as text, or the way in which
    that failed; \<open>Undecodable rc\<close> is a process that ended with exit code \<open>rc\<close>.
\<close>

record env =
  listing_exists :: "py_exc + bool"
  listing_open :: "py_exc option"
  json_load :: "py_exc + pyval"
  child :: "pystr list \<Rightarrow> child_failure + completed_process"

section \<open>\<^verbatim>\<open>load_datasets\<close>\<close>

definition load_datasets :: "env \<Rightarrow> pyval io" where
  "load_datasets ev =
     io_bind (io_lift (listing_exists ev)) (\<lambda>ex.
       if \<not> ex then
         io_bind (io_emit (Printed (lit ''[load_datasets] listing.json not found''))) (\<lambda>_.
           io_return (PList []))
       else
         io_catch
           (io_bind (case listing_open ev of Some e \<Rightarrow> io_raise e | None \<Rightarrow> io_return ()) (\<lambda>_.
              io_lift (json_load ev)))
           (\<lambda>e. case e of
                  JSONDecodeError msg \<Rightarrow>
                    io_bind (io_emit (Printed (lit ''[load_datasets] Invalid JSON: '' @ msg))) (\<lambda>_.
                      io_return (PList []))
                | _ \<Rightarrow> io_raise e))"

section \<open>Paths\<close>

text \<open>
  \<open>DATA_ROOT\<close> is a \<^verbatim>\<open>pathlib.Path\<close>, and the program joins it with a string by the
  operator \<^verbatim>\<open>/\<close> and converts the result with \<^verbatim>\<open>str\<close>. The POSIX flavour of
  pathlib is modelled: a path is its root (empty, one slash or two) and its components;
  the separator is the code point 47.
\<close>

datatype path = Path (path_root: pystr) (path_tail: "pystr list")

text \<open>\<^verbatim>\<open>posixpath.join(a, b)\<close>: an absolute \<open>b\<close> replaces what came before.\<close>

definition posixpath_join :: "pystr \<Rightarrow> pystr \<Rightarrow> pystr" where
  "posixpath_join a b =
     (if take 1 b = [47] then b
      else if a = [] \<or> last a = 47 then a @ b
      else a @ [47] @ b)"

text \<open>\<^verbatim>\<open>posixpath.splitroot\<close> without the drive, which is always empty.\<close>

definition splitroot :: "pystr \<Rightarrow> pystr \<times> pystr" where
  "splitroot p =
     (if take 1 p \<noteq> [47] then ([], p)
      else if take 1 (drop 1 p) \<noteq> [47] \<or> take 1 (drop 2 p) = [47] then ([47], drop 1 p)
      else ([47, 47], drop 2 p))"

text \<open>\<^verbatim>\<open>s.split("/")\<close> and \<^verbatim>\<open>"/".join(parts)\<close>.\<close>

fun split_sep :: "pystr \<Rightarrow> pystr list" where
  "split_sep [] = [[]]"
| "split_sep (c # cs) =
     (if c = 47 then [] # split_sep cs
      else (case split_sep cs of [] \<Rightarrow> [[c]] | w # ws \<Rightarrow> (c # w) # ws))"

fun join_sep :: "pystr list \<Rightarrow> pystr" where
  "join_sep [] = []"
| "join_sep [x] = x"
| "join_sep (x # y # ys) = x @ [47] @ join_sep (y # ys)"

text \<open>Parsing drops the empty components and the components \<^verbatim>\<open>"."\<close>.\<close>

definition parse_path :: "pystr \<Rightarrow> path" where
  "parse_path s =
     (if s = [] then Path [] []
      else (case splitroot s of
              (anchor, rel) \<Rightarrow> Path anchor (filter (\<lambda>x. x \<noteq> [] \<and> x \<noteq> lit ''.'') (split_sep rel))))"

definition path_str :: "path \<Rightarrow> pystr" where
  "path_str p =
     (let s = path_root p @ join_sep (path_tail p) in if s = [] then lit ''.'' else s)"

definition is_absolute :: "path \<Rightarrow> bool" where
  "is_absolute p \<longleftrightarrow> path_root p \<noteq> []"

text \<open>\<^verbatim>\<open>p / key\<close>: a key that is not a string makes the operator raise \<open>TypeError\<close>.\<close>

fun path_truediv :: "path \<Rightarrow> pyval \<Rightarrow> py_exc + path" where
  "path_truediv p (PStr key) = Inr (parse_path (posixpath_join (path_str p) key))"
| "path_truediv p _ = Inl TypeError"

section \<open>Dictionaries keyed by Python values\<close>

text \<open>
  A dictionary key is hashed and compared by value: \<^verbatim>\<open>True == 1 == 1.0\<close> are one key,
  a list or a dict is unhashable. \<open>pykey\<close> is what remains of a value as a key.
\<close>

datatype pykey = KNone | KStr pystr | KNum pyfloat

fun py_hash :: "pyval \<Rightarrow> py_exc + pykey" where
  "py_hash PNone = Inr KNone"
| "py_hash (PBool b) = Inr (KNum (Finite (if b then 1 else 0)))"
| "py_hash (PInt i) = Inr (KNum (Finite (of_int i)))"
| "py_hash (PFloat f) = Inr (KNum f)"
| "py_hash (PStr s) = Inr (KStr s)"
| "py_hash (PList xs) = Inl TypeError"
| "py_hash (PDict kvs) = Inl TypeError"

text \<open>A form value is a string, or \<^verbatim>\<open>None\<close> when the field is absent.\<close>

fun key_of_field :: "pystr option \<Rightarrow> pykey" where
  "key_of_field None = KNone"
| "key_of_field (Some s) = KStr s"

text \<open>\<^verbatim>\<open>for d in v\<close>: what iterating a value yields.\<close>

fun py_iter :: "pyval \<Rightarrow> py_exc + pyval list" where
  "py_iter (PList xs) = Inr xs"
| "py_iter (PDict kvs) = Inr (map (\<lambda>kv. PStr (fst kv)) kvs)"
| "py_iter (PStr s) = Inr (map (\<lambda>c. PStr [c]) s)"
| "py_iter _ = Inl TypeError"

text \<open>\<^verbatim>\<open>d[name]\<close> for a string \<open>name\<close>.\<close>

fun py_getitem :: "pyval \<Rightarrow> pystr \<Rightarrow> py_exc + pyval" where
  "py_getitem (PDict kvs) name =
     (case map_of kvs name of None \<Rightarrow> Inl KeyError | Some v \<Rightarrow> Inr v)"
| "py_getitem _ name = Inl TypeError"

text \<open>
  A \<^verbatim>\<open>dict\<close> under construction: its items in insertion order. Storing under a key
  that is present replaces the value in place.
\<close>

type_synonym pydict = "(pykey \<times> pyval) list"

fun dict_setitem :: "pydict \<Rightarrow> pykey \<Rightarrow> pyval \<Rightarrow> pydict" where
  "dict_setitem [] k v = [(k, v)]"
| "dict_setitem ((k', v') # kvs) k v =
     (if k' = k then (k', v) # kvs else (k', v') # dict_setitem kvs k v)"

definition dict_contains :: "pydict \<Rightarrow> pykey \<Rightarrow> bool" where
  "dict_contains m k \<longleftrightarrow> map_of m k \<noteq> None"

definition dict_getitem :: "pydict \<Rightarrow> pykey \<Rightarrow> py_exc + pyval" where
  "dict_getitem m k = (case map_of m k of None \<Rightarrow> Inl KeyError | Some v \<Rightarrow> Inr v)"

definition dict_values :: "pydict \<Rightarrow> pyval list" where
  "dict_values m = map snd m"

text \<open>
  \<^verbatim>\<open>{d["key"]: d for d in load_datasets()}\<close>: for each element the key expression is
  evaluated, hashed and stored; the first exception ends the comprehension.
\<close>

fun datasets_dict_from :: "pydict \<Rightarrow> pyval list \<Rightarrow> py_exc + pydict" where
  "datasets_dict_from acc [] = Inr acc"
| "datasets_dict_from acc (d # ds) =
     (case py_getitem d (lit ''key'') of
        Inl e \<Rightarrow> Inl e
      | Inr k \<Rightarrow>
          (case py_hash k of
             Inl e \<Rightarrow> Inl e
           | Inr h \<Rightarrow> datasets_dict_from (dict_setitem acc h d) ds))"

definition datasets_dict_of :: "pyval \<Rightarrow> py_exc + pydict" where
  "datasets_dict_of loaded =
     (case py_iter loaded of Inl e \<Rightarrow> Inl e | Inr ds \<Rightarrow> datasets_dict_from [] ds)"

section \<open>\<^verbatim>\<open>graphrag_cli_query\<close>\<close>

text \<open>
  The process configuration: \<open>DATA_ROOT\<close>, resolved at start-up, and
  \<^verbatim>\<open>sys.executable\<close>.
\<close>

record config =
  DATA_ROOT :: path
  sys_executable :: pystr

text \<open>
  \<^verbatim>\<open>subprocess.run(cmd, capture_output=True, text=True, check=...)\<close>: the argument
  vector is handed to the child as it is (no shell); starting the process and decoding
  its output come first, and then with \<open>check\<close> a non-zero exit raises
  \<open>CalledProcessError\<close>.
\<close>

definition subprocess_run :: "env \<Rightarrow> pystr list \<Rightarrow> bool \<Rightarrow> completed_process io" where
  "subprocess_run ev cmd check =
     io_bind (io_emit (SubprocessRun cmd)) (\<lambda>_.
       case child ev cmd of
         Inl failure \<Rightarrow> io_raise (child_exception failure)
       | Inr completed \<Rightarrow>
           if check \<and> returncode completed \<noteq> 0 then
             io_raise (CalledProcessError (returncode completed) cmd (stdout completed)
                         (stderr completed))
           else io_return completed)"

definition graphrag_cmd :: "config \<Rightarrow> path \<Rightarrow> pystr \<Rightarrow> pystr \<Rightarrow> pystr list" where
  "graphrag_cmd cfg dataset_path question method =
     [sys_executable cfg, lit ''-m'', lit ''graphrag'', lit ''query'',
      lit ''--root'', path_str dataset_path,
      lit ''--method'', method,
      lit ''--query'', question]"

definition graphrag_cli_query :: "config \<Rightarrow> env \<Rightarrow> path \<Rightarrow> pystr \<Rightarrow> pystr \<Rightarrow> pystr io" where
  "graphrag_cli_query cfg ev dataset_path question method =
     io_bind (subprocess_run ev (graphrag_cmd cfg dataset_path question method) True) (\<lambda>completed.
       io_return (strip (stdout completed)))"

section \<open>The routes\<close>

text \<open>
  The submitted form: each field is present with a value or absent. A response is a
  redirect to the URL of an endpoint, or the template \<^verbatim>\<open>index.html\<close> rendered with
  the keyword arguments of the call; the template itself is a file outside the program.
\<close>

record form =
  form_question :: "pystr option"
  form_dataset :: "pystr option"
  form_method :: "pystr option"

datatype response =
    Redirect pystr
  | RenderForm pyval
  | RenderAnswer (r_datasets: "pyval list") (r_answer: pystr) (r_ask: pystr)
      (r_chosen: "pystr option") (r_method: pystr)

definition index :: "env \<Rightarrow> response io" where
  "index ev = io_bind (load_datasets ev) (\<lambda>datasets. io_return (RenderForm datasets))"

definition failure_answer :: "pystr \<Rightarrow> pystr" where
  "failure_answer err = lit ''GraphRAG query failed:'' @ [10] @ take 500 err @ lit ''...''"

definition ask :: "config \<Rightarrow> env \<Rightarrow> form \<Rightarrow> response io" where
  "ask cfg ev f =
     (let question = strip (case form_question f of None \<Rightarrow> [] | Some q \<Rightarrow> q);
          ds_key = form_dataset f;
          method = (case form_method f of None \<Rightarrow> lit ''global'' | Some m \<Rightarrow> m)
      in
      io_bind (load_datasets ev) (\<lambda>loaded.
      io_bind (io_lift (datasets_dict_of loaded)) (\<lambda>datasets_dict.
        if question = [] \<or> \<not> dict_contains datasets_dict (key_of_field ds_key) then
          io_bind (io_emit (Flashed (lit ''Please enter a question and choose a dataset.'')
                                    (lit ''danger''))) (\<lambda>_.
            io_return (Redirect (lit ''index'')))
        else
          io_bind (io_lift (dict_getitem datasets_dict (key_of_field ds_key))) (\<lambda>d.
          io_bind (io_lift (py_getitem d (lit ''path''))) (\<lambda>p.
          io_bind (io_lift (path_truediv (DATA_ROOT cfg) p)) (\<lambda>dataset_path.
          io_bind
            (io_catch (graphrag_cli_query cfg ev dataset_path question method)
               (\<lambda>e. case e of
                      CalledProcessError rc cmd out err \<Rightarrow> io_return (failure_answer err)
                    | _ \<Rightarrow> io_raise e)) (\<lambda>answer.
          io_return (RenderAnswer (dict_values datasets_dict) answer question ds_key method))))))))"

section \<open>Example inputs\<close>

text \<open>A configuration, listing files, child processes and forms on which the theorems
  below are instantiated.\<close>

definition example_cfg :: config where
  "example_cfg =
     \<lparr>DATA_ROOT = Path [47] [lit ''srv'', lit ''data''], sys_executable = lit ''/usr/bin/python3''\<rparr>"

definition descriptor :: "string \<Rightarrow> string \<Rightarrow> pyval" where
  "descriptor k p = PDict [(lit ''key'', PStr (lit k)), (lit ''path'', PStr (lit p))]"

definition listing_alpha :: pyval where
  "listing_alpha = PList [descriptor ''alpha'' ''alpha_data'']"

definition listing_duplicate :: pyval where
  "listing_duplicate =
     PList [descriptor ''alpha'' ''old_data'', descriptor ''alpha'' ''new_data'',
            descriptor ''beta'' ''beta_data'']"

definition listing_absolute :: pyval where
  "listing_absolute = PList [descriptor ''alpha'' ''/etc'']"

definition listing_without_key :: pyval where
  "listing_without_key = PList [PDict [(lit ''path'', PStr (lit ''alpha_data''))]]"

definition child_paris :: "pystr list \<Rightarrow> child_failure + completed_process" where
  "child_paris cmd =
     Inr \<lparr>returncode = 0, stdout = lit ''  Paris is the capital.  '' @ [10], stderr = []\<rparr>"

definition child_fails_short :: "pystr list \<Rightarrow> child_failure + completed_process" where
  "child_fails_short cmd = Inr \<lparr>returncode = 1, stdout = [], stderr = lit ''boom''\<rparr>"

definition child_fails_long :: "pystr list \<Rightarrow> child_failure + completed_process" where
  "child_fails_long cmd = Inr \<lparr>returncode = 1, stdout = [], stderr = replicate 600 120\<rparr>"

definition child_undecodable :: "pystr list \<Rightarrow> child_failure + completed_process" where
  "child_undecodable cmd = Inl (Undecodable 0)"

definition env_parsed :: "pyval \<Rightarrow> (pystr list \<Rightarrow> child_failure + completed_process) \<Rightarrow> env" where
  "env_parsed v ch =
     \<lparr>listing_exists = Inr True, listing_open = None, json_load = Inr v, child = ch\<rparr>"

definition env_missing :: env where
  "env_missing =
     \<lparr>listing_exists = Inr False, listing_open = Some OSError, json_load = Inl OSError,
      child = child_paris\<rparr>"

definition env_malformed :: env where
  "env_malformed =
     \<lparr>listing_exists = Inr True, listing_open = None,
      json_load = Inl (JSONDecodeError (lit ''Expecting value: line 1 column 1 (char 0)'')),
      child = child_paris\<rparr>"

definition env_unreadable :: env where
  "env_unreadable =
     \<lparr>listing_exists = Inr True, listing_open = Some OSError, json_load = Inl OSError,
      child = child_paris\<rparr>"

definition env_integer_limit :: env where
  "env_integer_limit =
     \<lparr>listing_exists = Inr True, listing_open = None, json_load = Inl ValueError,
      child = child_paris\<rparr>"

definition form_alpha :: form where
  "form_alpha =
     \<lparr>form_question = Some (lit ''What is X?''), form_dataset = Some (lit ''alpha''),
      form_method = Some (lit ''local'')\<rparr>"

definition form_blank :: form where
  "form_blank =
     \<lparr>form_question = Some (lit ''   ''), form_dataset = Some (lit ''alpha''),
      form_method = Some (lit ''local'')\<rparr>"

definition form_unknown :: form where
  "form_unknown =
     \<lparr>form_question = Some (lit ''What is X?''), form_dataset = Some (lit ''gamma''),
      form_method = Some (lit ''local'')\<rparr>"

definition form_no_method :: form where
  "form_no_method =
     \<lparr>form_question = Some (lit ''What is X?''), form_dataset = Some (lit ''alpha''),
      form_method = None\<rparr>"

text \<open>The argument vector for the question of \<open>form_alpha\<close>, and the stored warning.\<close>

definition alpha_cmd :: "string \<Rightarrow> string \<Rightarrow> pystr list" where
  "alpha_cmd dir m =
     [lit ''/usr/bin/python3'', lit ''-m'', lit ''graphrag'', lit ''query'',
      lit ''--root'', lit dir, lit ''--method'', lit m, lit ''--query'', lit ''What is X?'']"

definition flash_event :: event where
  "flash_event = Flashed (lit ''Please enter a question and choose a dataset.'') (lit ''danger'')"

section \<open>Unfolding the computations\<close>

lemma io_bind_Inl: "io_bind (evs, Inl e) f = (evs, Inl e)"
  by (simp add: io_bind_def)

lemma io_bind_Inr: "io_bind (evs, Inr x) f = (evs @ fst (f x), snd (f x))"
  by (simp add: io_bind_def split: prod.splits)

lemma io_bind_return: "io_bind (io_return x) f = f x"
  by (simp add: io_bind_def io_return_def split: prod.splits)

lemma io_bind_raise: "io_bind (io_raise e) f = io_raise e"
  by (simp add: io_bind_def io_raise_def)

lemma io_bind_emit: "io_bind (io_emit a) f = (a # fst (f ()), snd (f ()))"
  by (simp add: io_bind_def io_emit_def split: prod.splits)

lemma io_bind_lift: "io_bind (io_lift r) f = (case r of Inl e \<Rightarrow> ([], Inl e) | Inr x \<Rightarrow> f x)"
  by (simp add: io_bind_def io_lift_def split: prod.splits sum.splits)

lemma io_catch_Inl: "io_catch (evs, Inl e) h = (evs @ fst (h e), snd (h e))"
  by (simp add: io_catch_def split: prod.splits)

lemma io_catch_Inr: "io_catch (evs, Inr x) h = (evs, Inr x)"
  by (simp add: io_catch_def)

lemmas io_simps = io_bind_Inl io_bind_Inr io_bind_return io_bind_raise io_bind_emit io_bind_lift
  io_catch_Inl io_catch_Inr

text \<open>\<open>load_datasets\<close> by cases on what the library calls do.\<close>

lemma load_datasets_unfold:
  "load_datasets ev =
     (case listing_exists ev of
        Inl e \<Rightarrow> ([], Inl e)
      | Inr ex \<Rightarrow>
          if \<not> ex then ([Printed (lit ''[load_datasets] listing.json not found'')], Inr (PList []))
          else (case (case listing_open ev of Some e \<Rightarrow> Inl e | None \<Rightarrow> json_load ev) of
                  Inl (JSONDecodeError msg) \<Rightarrow>
                    ([Printed (lit ''[load_datasets] Invalid JSON: '' @ msg)], Inr (PList []))
                | Inl e \<Rightarrow> ([], Inl e)
                | Inr v \<Rightarrow> ([], Inr v)))"
  by (simp add: load_datasets_def io_simps io_return_def io_raise_def io_lift_def
      split: sum.splits option.splits py_exc.splits)

lemma load_datasets_events: "a \<in> set (fst (load_datasets ev)) \<Longrightarrow> \<exists>s. a = Printed s"
  by (auto simp: load_datasets_unfold split: sum.splits option.splits py_exc.splits if_splits)

lemma subprocess_run_unfold:
  "subprocess_run ev cmd True =
     ([SubprocessRun cmd],
      case child ev cmd of
        Inl failure \<Rightarrow> Inl (child_exception failure)
      | Inr c \<Rightarrow> if returncode c \<noteq> 0
                then Inl (CalledProcessError (returncode c) cmd (stdout c) (stderr c))
                else Inr c)"
  by (simp add: subprocess_run_def io_simps io_return_def io_raise_def split: sum.splits)

lemma graphrag_cli_query_unfold:
  "graphrag_cli_query cfg ev dp q m =
     ([SubprocessRun (graphrag_cmd cfg dp q m)],
      case child ev (graphrag_cmd cfg dp q m) of
        Inl failure \<Rightarrow> Inl (child_exception failure)
      | Inr c \<Rightarrow> if returncode c \<noteq> 0
                then Inl (CalledProcessError (returncode c) (graphrag_cmd cfg dp q m) (stdout c) (stderr c))
                else Inr (strip (stdout c)))"
  by (simp add: graphrag_cli_query_def subprocess_run_unfold io_simps io_return_def split: sum.splits)

text \<open>A failure of the child is never the \<open>CalledProcessError\<close> that \<open>ask\<close> catches.\<close>

lemma child_exception_not_called [simp]:
  "child_exception failure \<noteq> CalledProcessError rc cmd out err"
  by (cases failure) simp_all

text \<open>\<open>ask\<close> once the registry is loaded and indexed, and when either step raises.\<close>

lemma ask_unfold:
  assumes "load_datasets ev = (evs, Inr v)" and "datasets_dict_of v = Inr dd"
  shows "ask cfg ev f =
     (let question = strip (case form_question f of None \<Rightarrow> [] | Some q \<Rightarrow> q);
          ds_key = form_dataset f;
          method = (case form_method f of None \<Rightarrow> lit ''global'' | Some m \<Rightarrow> m)
      in if question = [] \<or> map_of dd (key_of_field ds_key) = None then
           (evs @ [Flashed (lit ''Please enter a question and choose a dataset.'') (lit ''danger'')],
            Inr (Redirect (lit ''index'')))
         else (case py_getitem (the (map_of dd (key_of_field ds_key))) (lit ''path'') of
                 Inl e \<Rightarrow> (evs, Inl e)
               | Inr p \<Rightarrow>
                  (case path_truediv (DATA_ROOT cfg) p of
                     Inl e \<Rightarrow> (evs, Inl e)
                   | Inr dp \<Rightarrow>
                      (evs @ [SubprocessRun (graphrag_cmd cfg dp question method)],
                       case child ev (graphrag_cmd cfg dp question method) of
                         Inl failure \<Rightarrow> Inl (child_exception failure)
                       | Inr c \<Rightarrow>
                           Inr (RenderAnswer (dict_values dd)
                                  (if returncode c \<noteq> 0 then failure_answer (stderr c)
                                   else strip (stdout c))
                                  question ds_key method)))))"
  using assms
  by (auto simp: ask_def Let_def io_simps io_return_def io_raise_def io_lift_def io_emit_def
      dict_contains_def dict_getitem_def graphrag_cli_query_unfold
      split: sum.splits option.splits py_exc.splits child_failure.splits)

lemma ask_load_fails:
  "load_datasets ev = (evs, Inl e) \<Longrightarrow> ask cfg ev f = (evs, Inl e)"
  by (simp add: ask_def Let_def io_simps)

lemma ask_dict_fails:
  "load_datasets ev = (evs, Inr v) \<Longrightarrow> datasets_dict_of v = Inl e \<Longrightarrow> ask cfg ev f = (evs, Inl e)"
  by (simp add: ask_def Let_def io_simps)

section \<open>The example inputs evaluated\<close>

lemma lit_eq_iff [simp]: "lit s = lit t \<longleftrightarrow> s = t"
  by (simp add: lit_def inj_map_eq_map [OF inj_of_char])

lemma lit_eq_Nil_iff [simp]: "lit s = [] \<longleftrightarrow> s = []"
  by (simp add: lit_def)

lemma load_datasets_env_parsed: "load_datasets (env_parsed v ch) = ([], Inr v)"
  by (simp add: load_datasets_unfold env_parsed_def)

lemma child_env_parsed: "child (env_parsed v ch) = ch"
  by (simp add: env_parsed_def)

lemma load_datasets_env_missing:
  "load_datasets env_missing =
     ([Printed (lit ''[load_datasets] listing.json not found'')], Inr (PList []))"
  by (simp add: load_datasets_unfold env_missing_def)

lemma child_env_missing: "child env_missing = child_paris"
  by (simp add: env_missing_def)

lemma strip_question: "strip (lit ''What is X?'') = lit ''What is X?''"
  by (simp add: strip_def lit_def py_isspace_def)

lemma strip_blank: "strip (lit ''   '') = []"
  by (simp add: strip_def lit_def py_isspace_def)

lemma strip_paris: "strip (lit ''  Paris is the capital.  '' @ [10]) = lit ''Paris is the capital.''"
  by (simp add: strip_def lit_def py_isspace_def)

lemma datasets_dict_alpha:
  "datasets_dict_of listing_alpha = Inr [(KStr (lit ''alpha''), descriptor ''alpha'' ''alpha_data'')]"
  by (simp add: datasets_dict_of_def listing_alpha_def descriptor_def)

lemma datasets_dict_duplicate:
  "datasets_dict_of listing_duplicate =
     Inr [(KStr (lit ''alpha''), descriptor ''alpha'' ''new_data''),
          (KStr (lit ''beta''), descriptor ''beta'' ''beta_data'')]"
  by (simp add: datasets_dict_of_def listing_duplicate_def descriptor_def)

lemma datasets_dict_absolute:
  "datasets_dict_of listing_absolute = Inr [(KStr (lit ''alpha''), descriptor ''alpha'' ''/etc'')]"
  by (simp add: datasets_dict_of_def listing_absolute_def descriptor_def)

lemma datasets_dict_without_key: "datasets_dict_of listing_without_key = Inl KeyError"
  by (simp add: datasets_dict_of_def listing_without_key_def)

lemma datasets_dict_empty: "datasets_dict_of (PList []) = Inr []"
  by (simp add: datasets_dict_of_def)

lemma descriptor_path: "py_getitem (descriptor k p) (lit ''path'') = Inr (PStr (lit p))"
  by (simp add: descriptor_def)

lemma descriptor_key: "py_getitem (descriptor k p) (lit ''key'') = Inr (PStr (lit k))"
  by (simp add: descriptor_def)

lemma example_root_str: "path_str (DATA_ROOT example_cfg) = lit ''/srv/data''"
  by (simp add: example_cfg_def path_str_def lit_def)

lemma example_executable: "sys_executable example_cfg = lit ''/usr/bin/python3''"
  by (simp add: example_cfg_def)

lemma join_alpha_data:
  "path_str (parse_path (posixpath_join (lit ''/srv/data'') (lit ''alpha_data''))) =
     lit ''/srv/data/alpha_data''"
  by (simp add: path_str_def posixpath_join_def parse_path_def splitroot_def lit_def)

lemma join_new_data:
  "path_str (parse_path (posixpath_join (lit ''/srv/data'') (lit ''new_data''))) = lit ''/srv/data/new_data''"
  by (simp add: path_str_def posixpath_join_def parse_path_def splitroot_def lit_def)

lemma parse_etc: "parse_path (lit ''/etc'') = Path [47] [lit ''etc'']"
  by (simp add: parse_path_def splitroot_def lit_def)

lemma path_str_etc: "path_str (Path [47] [lit ''etc'']) = lit ''/etc''"
  by (simp add: path_str_def lit_def)

lemma example_dataset_path_str:
  "path_str (Path [47] [lit ''srv'', lit ''data'', lit ''alpha_data'']) = lit ''/srv/data/alpha_data''"
  by (simp add: path_str_def lit_def)

lemmas example_simps = form_alpha_def form_blank_def form_unknown_def form_no_method_def
  descriptor_path descriptor_key strip_question strip_blank strip_paris
  example_root_str example_executable join_alpha_data join_new_data parse_etc path_str_etc
  child_env_parsed graphrag_cmd_def alpha_cmd_def

lemma map_of_alpha:
  "map_of [(KStr (lit ''alpha''), descriptor ''alpha'' p)] (key_of_field (form_dataset form_alpha)) =
     Some (descriptor ''alpha'' p)"
  by (simp add: form_alpha_def)

lemma question_alpha:
  "strip (case form_question form_alpha of None \<Rightarrow> [] | Some q \<Rightarrow> q) \<noteq> []"
  by (simp add: form_alpha_def strip_question)

lemma ask_alpha_events:
  "fst (ask example_cfg (env_parsed listing_alpha ch) form_alpha) =
     [SubprocessRun (alpha_cmd ''/srv/data/alpha_data'' ''local'')]"
  by (simp add: ask_unfold [OF load_datasets_env_parsed datasets_dict_alpha] Let_def example_simps)

section \<open>What a request that starts the child process went through\<close>

lemma load_datasets_no_run: "load_datasets ev = (evs, r) \<Longrightarrow> SubprocessRun cmd \<notin> set evs"
  using load_datasets_events [of "SubprocessRun cmd" ev] by auto

lemma ask_reaches_invoker:
  assumes "SubprocessRun cmd \<in> set (fst (ask cfg ev f))"
  obtains evs v dd d p dp where
    "load_datasets ev = (evs, Inr v)" and "datasets_dict_of v = Inr dd" and
    "strip (case form_question f of None \<Rightarrow> [] | Some q \<Rightarrow> q) \<noteq> []" and
    "map_of dd (key_of_field (form_dataset f)) = Some d" and
    "py_getitem d (lit ''path'') = Inr p" and
    "path_truediv (DATA_ROOT cfg) p = Inr dp" and
    "cmd = graphrag_cmd cfg dp (strip (case form_question f of None \<Rightarrow> [] | Some q \<Rightarrow> q))
             (case form_method f of None \<Rightarrow> lit ''global'' | Some m \<Rightarrow> m)"
proof -
  obtain evs r where l: "load_datasets ev = (evs, r)"
    by (cases "load_datasets ev")
  have norun: "SubprocessRun cmd \<notin> set evs"
    using l by (rule load_datasets_no_run)
  show thesis
  proof (cases r)
    case (Inl e)
    with l assms norun show thesis
      by (simp add: ask_load_fails)
  next
    case (Inr v)
    note v = this
    show thesis
    proof (cases "datasets_dict_of v")
      case (Inl e)
      with l v assms norun show thesis
        by (simp add: ask_dict_fails)
    next
      case (Inr dd)
      from assms norun show thesis
        unfolding ask_unfold [OF l [unfolded v] Inr]
        by (auto simp: Let_def split: if_splits sum.splits intro: that [OF l [unfolded v] Inr])
    qed
  qed
qed

lemma ask_render_answer:
  assumes "snd (ask cfg ev f) = Inr (RenderAnswer ds a q k m)"
  shows "q = strip (case form_question f of None \<Rightarrow> [] | Some q \<Rightarrow> q) \<and> k = form_dataset f \<and>
         m = (case form_method f of None \<Rightarrow> lit ''global'' | Some m \<Rightarrow> m)"
proof -
  obtain evs r where l: "load_datasets ev = (evs, r)"
    by (cases "load_datasets ev")
  show ?thesis
  proof (cases r)
    case (Inl e)
    with l assms show ?thesis
      by (simp add: ask_load_fails)
  next
    case (Inr v)
    note v = this
    show ?thesis
    proof (cases "datasets_dict_of v")
      case (Inl e)
      with l v assms show ?thesis
        by (simp add: ask_dict_fails)
    next
      case (Inr dd)
      from assms show ?thesis
        unfolding ask_unfold [OF l [unfolded v] Inr]
        by (auto simp: Let_def split: if_splits sum.splits py_exc.splits)
    qed
  qed
qed

section \<open>The key index\<close>

lemma map_of_dict_setitem: "map_of (dict_setitem m k v) = (map_of m)(k \<mapsto> v)"
  by (induction m k v rule: dict_setitem.induct) auto

lemma datasets_dict_from_append:
  "datasets_dict_from acc (xs @ zs) =
     (case datasets_dict_from acc xs of Inl e \<Rightarrow> Inl e | Inr acc' \<Rightarrow> datasets_dict_from acc' zs)"
  by (induction xs arbitrary: acc) (auto split: sum.splits)

lemma datasets_dict_from_other:
  assumes "datasets_dict_from acc ys = Inr dd"
    and "\<forall>y\<in>set ys. \<forall>kv. py_getitem y (lit ''key'') = Inr kv \<longrightarrow> py_hash kv \<noteq> Inr k"
  shows "map_of dd k = map_of acc k"
  using assms
proof (induction ys arbitrary: acc)
  case Nil
  then show ?case by simp
next
  case (Cons y ys)
  from Cons.prems(1) obtain kv h where
    kv: "py_getitem y (lit ''key'') = Inr kv" and h: "py_hash kv = Inr h" and
    rest: "datasets_dict_from (dict_setitem acc h y) ys = Inr dd"
    by (auto split: sum.splits)
  from Cons.prems(2) kv h have "h \<noteq> k"
    by auto
  moreover from Cons.IH [OF rest] Cons.prems(2)
  have "map_of dd k = map_of (dict_setitem acc h y) k"
    by simp
  ultimately show ?case
    by (simp add: map_of_dict_setitem)
qed

lemma datasets_dict_from_last:
  assumes "datasets_dict_from acc (xs @ d # ys) = Inr dd"
    and "py_getitem d (lit ''key'') = Inr kv" and "py_hash kv = Inr k"
    and "\<forall>y\<in>set ys. \<forall>kv'. py_getitem y (lit ''key'') = Inr kv' \<longrightarrow> py_hash kv' \<noteq> Inr k"
  shows "map_of dd k = Some d"
proof -
  from assms(1) obtain acc' where
    rest: "datasets_dict_from acc' (d # ys) = Inr dd"
    by (auto simp: datasets_dict_from_append split: sum.splits)
  with assms(2,3) have "datasets_dict_from (dict_setitem acc' k d) ys = Inr dd"
    by simp
  from datasets_dict_from_other [OF this assms(4)] show ?thesis
    by (simp add: map_of_dict_setitem)
qed

lemma parse_path_absolute: "take 1 p = [47] \<Longrightarrow> is_absolute (parse_path p)"
  by (auto simp: is_absolute_def parse_path_def splitroot_def)

section \<open>The dataset registry\<close>




text \<open>
  C4. When \<^verbatim>\<open>listing.json\<close> is read and \<^verbatim>\<open>json.load\<close> returns a value, \<open>load_datasets\<close>
  returns that value unchanged, whatever its shape, and prints nothing. When the file
  does not exist, or \<^verbatim>\<open>json.load\<close> rejects its text with \<open>JSONDecodeError\<close>, the result
  is the empty list and one diagnostic line is printed. When \<^verbatim>\<open>json.load\<close> raises
  \<open>ValueError\<close>, as it does for well-formed text with an integer literal beyond the
  digit limit of the interpreter, that exception reaches the caller.
\<close>

theorem load_datasets_verbatim:
  "(listing_exists ev = Inr True \<and> listing_open ev = None \<and> json_load ev = Inr v \<longrightarrow>
      load_datasets ev = ([], Inr v)) \<and>
   (listing_exists ev = Inr False \<longrightarrow>
      load_datasets ev =
        ([Printed (lit ''[load_datasets] listing.json not found'')], Inr (PList []))) \<and>
   (listing_exists ev = Inr True \<and> listing_open ev = None \<and>
      json_load ev = Inl (JSONDecodeError msg) \<longrightarrow>
      load_datasets ev =
        ([Printed (lit ''[load_datasets] Invalid JSON: '' @ msg)], Inr (PList []))) \<and>
   (listing_exists ev = Inr True \<and> listing_open ev = None \<and> json_load ev = Inl ValueError \<longrightarrow>
      load_datasets ev = ([], Inl ValueError))"
  by (simp add: load_datasets_unfold)

theorem load_datasets_verbatim_witness:
  "load_datasets (env_parsed listing_without_key child_paris) = ([], Inr listing_without_key) \<and>
   snd (load_datasets env_missing) = Inr (PList []) \<and>
   snd (load_datasets env_malformed) = Inr (PList []) \<and>
   snd (load_datasets env_integer_limit) = Inl ValueError"
  using load_datasets_verbatim [of "env_parsed listing_without_key child_paris" listing_without_key]
    load_datasets_verbatim [of env_missing]
    load_datasets_verbatim [of env_malformed _ "lit ''Expecting value: line 1 column 1 (char 0)''"]
    load_datasets_verbatim [of env_integer_limit]
  by (simp add: env_missing_def env_malformed_def env_parsed_def env_integer_limit_def)

text \<open>
  Well-formed content is not always returned: for a listing whose text is a JSON array
  holding an integer of 5000 digits, \<^verbatim>\<open>json.load\<close> raises \<open>ValueError\<close>, which the
  \<^verbatim>\<open>except\<close> clause does not name.
\<close>

theorem load_datasets_integer_limit_raises:
  "load_datasets env_integer_limit = ([], Inl ValueError)"
  by (simp add: load_datasets_unfold env_integer_limit_def)

text \<open>
  C8. When the sequence that the handler iterates holds several descriptors with one
  key, the index built by \<^verbatim>\<open>{d["key"]: d for d in load_datasets()}\<close> maps that key to
  the last of them: for a descriptor \<open>d\<close> with key \<open>k\<close> after which no descriptor has
  key \<open>k\<close>, the membership test succeeds, the lookup gives \<open>d\<close>, and a request for
  \<open>k\<close> that passes validation starts the child process on the path of \<open>d\<close>.
\<close>

theorem datasets_dict_last_wins:
  assumes "load_datasets ev = (evs, Inr v)" and "py_iter v = Inr (xs @ d # ys)"
    and "datasets_dict_of v = Inr dd"
    and "py_getitem d (lit ''key'') = Inr kv" and "py_hash kv = Inr k"
    and "\<forall>y\<in>set ys. \<forall>kv'. py_getitem y (lit ''key'') = Inr kv' \<longrightarrow> py_hash kv' \<noteq> Inr k"
  shows "dict_contains dd k \<and> dict_getitem dd k = Inr d \<and>
         (key_of_field (form_dataset f) = k \<and>
          strip (case form_question f of None \<Rightarrow> [] | Some q \<Rightarrow> q) \<noteq> [] \<and>
          py_getitem d (lit ''path'') = Inr (PStr p) \<longrightarrow>
            fst (ask cfg ev f) =
              evs @ [SubprocessRun
                       (graphrag_cmd cfg (parse_path (posixpath_join (path_str (DATA_ROOT cfg)) p))
                          (strip (case form_question f of None \<Rightarrow> [] | Some q \<Rightarrow> q))
                          (case form_method f of None \<Rightarrow> lit ''global'' | Some m \<Rightarrow> m))])"
proof -
  from assms(2,3) have "datasets_dict_from [] (xs @ d # ys) = Inr dd"
    by (simp add: datasets_dict_of_def)
  from datasets_dict_from_last [OF this assms(4-6)] have m: "map_of dd k = Some d" .
  then show ?thesis
    by (auto simp: dict_contains_def dict_getitem_def ask_unfold [OF assms(1,3)] Let_def)
qed

theorem datasets_dict_last_wins_witness:
  "dict_getitem [(KStr (lit ''alpha''), descriptor ''alpha'' ''new_data''),
                 (KStr (lit ''beta''), descriptor ''beta'' ''beta_data'')] (KStr (lit ''alpha'')) =
     Inr (descriptor ''alpha'' ''new_data'') \<and>
   fst (ask example_cfg (env_parsed listing_duplicate child_paris) form_alpha) =
     [SubprocessRun (alpha_cmd ''/srv/data/new_data'' ''local'')]"
proof -
  have it: "py_iter listing_duplicate =
      Inr ([descriptor ''alpha'' ''old_data''] @ descriptor ''alpha'' ''new_data'' #
           [descriptor ''beta'' ''beta_data''])"
    by (simp add: listing_duplicate_def)
  have later: "\<forall>y\<in>set [descriptor ''beta'' ''beta_data''].
      \<forall>kv'. py_getitem y (lit ''key'') = Inr kv' \<longrightarrow> py_hash kv' \<noteq> Inr (KStr (lit ''alpha''))"
    by (auto simp: descriptor_key)
  have h: "py_hash (PStr (lit ''alpha'')) = Inr (KStr (lit ''alpha''))"
    by simp
  from datasets_dict_last_wins [OF load_datasets_env_parsed it datasets_dict_duplicate descriptor_key h later,
      of form_alpha "lit ''new_data''" example_cfg child_paris]
  show ?thesis
    by (simp add: form_alpha_def descriptor_path strip_question graphrag_cmd_def alpha_cmd_def
        example_root_str join_new_data example_executable)
qed

section \<open>The query invoker\<close>

text \<open>
  C5. When the child process is started, runs to its end and its captured output is text,
  \<open>graphrag_cli_query\<close> raises exactly when the exit code is not zero, and the
  \<open>CalledProcessError\<close> then carries the exit code, the argument vector and the captured
  output and error text; with exit code zero it returns the captured standard output
  stripped of leading and trailing whitespace. When the captured output is not text the
  call raises \<open>UnicodeDecodeError\<close> whatever the exit code, and when the process is not
  started it raises the exception of the start.
\<close>

theorem graphrag_cli_query_result:
  "(child ev (graphrag_cmd cfg dp q m) = Inr c \<longrightarrow>
      ((\<exists>e. snd (graphrag_cli_query cfg ev dp q m) = Inl e) \<longleftrightarrow> returncode c \<noteq> 0) \<and>
      (returncode c \<noteq> 0 \<longrightarrow>
         snd (graphrag_cli_query cfg ev dp q m) =
           Inl (CalledProcessError (returncode c) (graphrag_cmd cfg dp q m) (stdout c) (stderr c))) \<and>
      (returncode c = 0 \<longrightarrow>
         snd (graphrag_cli_query cfg ev dp q m) = Inr (strip (stdout c)))) \<and>
   (child ev (graphrag_cmd cfg dp q m) = Inl (Undecodable rc) \<longrightarrow>
      snd (graphrag_cli_query cfg ev dp q m) = Inl UnicodeDecodeError) \<and>
   (child ev (graphrag_cmd cfg dp q m) = Inl NotExecutable \<longrightarrow>
      snd (graphrag_cli_query cfg ev dp q m) = Inl OSError) \<and>
   (child ev (graphrag_cmd cfg dp q m) = Inl NullInArgument \<longrightarrow>
      snd (graphrag_cli_query cfg ev dp q m) = Inl ValueError)"
  by (simp add: graphrag_cli_query_unfold)

theorem graphrag_cli_query_result_witness:
  "snd (graphrag_cli_query example_cfg (env_parsed listing_alpha child_paris)
          (Path [47] [lit ''srv'', lit ''data'', lit ''alpha_data'']) (lit ''What is X?'') (lit ''local'')) =
     Inr (lit ''Paris is the capital.'') \<and>
   snd (graphrag_cli_query example_cfg (env_parsed listing_alpha child_fails_short)
          (Path [47] [lit ''srv'', lit ''data'', lit ''alpha_data'']) (lit ''What is X?'') (lit ''local'')) =
     Inl (CalledProcessError 1 (alpha_cmd ''/srv/data/alpha_data'' ''local'') [] (lit ''boom'')) \<and>
   snd (graphrag_cli_query example_cfg (env_parsed listing_alpha child_undecodable)
          (Path [47] [lit ''srv'', lit ''data'', lit ''alpha_data'']) (lit ''What is X?'') (lit ''local'')) =
     Inl UnicodeDecodeError"
proof -
  have ok: "child (env_parsed listing_alpha child_paris)
      (graphrag_cmd example_cfg (Path [47] [lit ''srv'', lit ''data'', lit ''alpha_data''])
         (lit ''What is X?'') (lit ''local'')) =
      Inr \<lparr>returncode = 0, stdout = lit ''  Paris is the capital.  '' @ [10], stderr = []\<rparr>"
    by (simp add: child_env_parsed child_paris_def)
  have bad: "child (env_parsed listing_alpha child_fails_short)
      (graphrag_cmd example_cfg (Path [47] [lit ''srv'', lit ''data'', lit ''alpha_data''])
         (lit ''What is X?'') (lit ''local'')) =
      Inr \<lparr>returncode = 1, stdout = [], stderr = lit ''boom''\<rparr>"
    by (simp add: child_env_parsed child_fails_short_def)
  have und: "child (env_parsed listing_alpha child_undecodable)
      (graphrag_cmd example_cfg (Path [47] [lit ''srv'', lit ''data'', lit ''alpha_data''])
         (lit ''What is X?'') (lit ''local'')) = Inl (Undecodable 0)"
    by (simp add: child_env_parsed child_undecodable_def)
  from graphrag_cli_query_result [of "env_parsed listing_alpha child_paris" example_cfg
      "Path [47] [lit ''srv'', lit ''data'', lit ''alpha_data'']" "lit ''What is X?''" "lit ''local''"
      "\<lparr>returncode = 0, stdout = lit ''  Paris is the capital.  '' @ [10], stderr = []\<rparr>"] ok
  have p1: "snd (graphrag_cli_query example_cfg (env_parsed listing_alpha child_paris)
          (Path [47] [lit ''srv'', lit ''data'', lit ''alpha_data'']) (lit ''What is X?'') (lit ''local'')) =
     Inr (lit ''Paris is the capital.'')"
    by (simp add: strip_paris)
  from graphrag_cli_query_result [of "env_parsed listing_alpha child_fails_short" example_cfg
      "Path [47] [lit ''srv'', lit ''data'', lit ''alpha_data'']" "lit ''What is X?''" "lit ''local''"
      "\<lparr>returncode = 1, stdout = [], stderr = lit ''boom''\<rparr>"] bad
  have p2: "snd (graphrag_cli_query example_cfg (env_parsed listing_alpha child_fails_short)
          (Path [47] [lit ''srv'', lit ''data'', lit ''alpha_data'']) (lit ''What is X?'') (lit ''local'')) =
     Inl (CalledProcessError 1 (alpha_cmd ''/srv/data/alpha_data'' ''local'') [] (lit ''boom''))"
    by (simp add: example_simps example_dataset_path_str)
  from graphrag_cli_query_result [of "env_parsed listing_alpha child_undecodable" example_cfg
      "Path [47] [lit ''srv'', lit ''data'', lit ''alpha_data'']" "lit ''What is X?''" "lit ''local''" _ 0] und
  have p3: "snd (graphrag_cli_query example_cfg (env_parsed listing_alpha child_undecodable)
          (Path [47] [lit ''srv'', lit ''data'', lit ''alpha_data'']) (lit ''What is X?'') (lit ''local'')) =
     Inl UnicodeDecodeError"
    by simp
  from p1 p2 p3 show ?thesis
    by simp
qed

text \<open>
  A process that ends with exit code zero after writing bytes that are not text: the
  invoker fails although the exit code is zero, and returns no standard output.
\<close>

theorem graphrag_cli_query_undecodable_raises:
  "child (env_parsed listing_alpha child_undecodable) (alpha_cmd ''/srv/data/alpha_data'' ''local'') =
     Inl (Undecodable 0) \<and>
   graphrag_cli_query example_cfg (env_parsed listing_alpha child_undecodable)
     (Path [47] [lit ''srv'', lit ''data'', lit ''alpha_data'']) (lit ''What is X?'') (lit ''local'') =
     ([SubprocessRun (alpha_cmd ''/srv/data/alpha_data'' ''local'')], Inl UnicodeDecodeError)"
  by (simp add: graphrag_cli_query_unfold child_env_parsed child_undecodable_def example_simps
      example_dataset_path_str)

section \<open>The request handlers\<close>

text \<open>
  C1. Whenever the trimmed question is empty (also when the field is absent), \<open>ask\<close>
  starts no child process. When \<open>load_datasets\<close> returns and the key index over its
  result is built without an exception, a request whose trimmed question is empty or
  whose dataset key is not in the index stores the warning with \<^verbatim>\<open>flash\<close>, redirects to
  the endpoint \<^verbatim>\<open>index\<close> and starts no child process.
\<close>

theorem ask_validation_failure:
  "(strip (case form_question f of None \<Rightarrow> [] | Some q \<Rightarrow> q) = [] \<longrightarrow>
      (\<forall>cmd. SubprocessRun cmd \<notin> set (fst (ask cfg ev f)))) \<and>
   (load_datasets ev = (evs, Inr v) \<and> datasets_dict_of v = Inr dd \<and>
    (strip (case form_question f of None \<Rightarrow> [] | Some q \<Rightarrow> q) = [] \<or>
     \<not> dict_contains dd (key_of_field (form_dataset f))) \<longrightarrow>
      ask cfg ev f =
        (evs @ [Flashed (lit ''Please enter a question and choose a dataset.'') (lit ''danger'')],
         Inr (Redirect (lit ''index''))) \<and>
      (\<forall>cmd. SubprocessRun cmd \<notin> set (fst (ask cfg ev f))))"
proof (intro conjI impI allI)
  fix cmd
  assume "strip (case form_question f of None \<Rightarrow> [] | Some q \<Rightarrow> q) = []"
  then show "SubprocessRun cmd \<notin> set (fst (ask cfg ev f))"
    by (auto elim: ask_reaches_invoker)
next
  assume a: "load_datasets ev = (evs, Inr v) \<and> datasets_dict_of v = Inr dd \<and>
    (strip (case form_question f of None \<Rightarrow> [] | Some q \<Rightarrow> q) = [] \<or>
     \<not> dict_contains dd (key_of_field (form_dataset f)))"
  then show "ask cfg ev f =
        (evs @ [Flashed (lit ''Please enter a question and choose a dataset.'') (lit ''danger'')],
         Inr (Redirect (lit ''index'')))"
    by (auto simp: ask_unfold Let_def dict_contains_def)
next
  fix cmd
  assume a: "load_datasets ev = (evs, Inr v) \<and> datasets_dict_of v = Inr dd \<and>
    (strip (case form_question f of None \<Rightarrow> [] | Some q \<Rightarrow> q) = [] \<or>
     \<not> dict_contains dd (key_of_field (form_dataset f)))"
  then have "fst (ask cfg ev f) =
      evs @ [Flashed (lit ''Please enter a question and choose a dataset.'') (lit ''danger'')]"
    by (auto simp: ask_unfold Let_def dict_contains_def)
  moreover from a have "SubprocessRun cmd \<notin> set evs"
    by (blast dest: load_datasets_no_run)
  ultimately show "SubprocessRun cmd \<notin> set (fst (ask cfg ev f))"
    by simp
qed

theorem ask_validation_failure_witness:
  "ask example_cfg (env_parsed listing_alpha child_paris) form_blank =
     ([flash_event], Inr (Redirect (lit ''index''))) \<and>
   ask example_cfg (env_parsed listing_alpha child_paris) form_unknown =
     ([flash_event], Inr (Redirect (lit ''index'')))"
  using ask_validation_failure [where f = form_blank and cfg = example_cfg
      and ev = "env_parsed listing_alpha child_paris" and evs = "[]" and v = listing_alpha
      and dd = "[(KStr (lit ''alpha''), descriptor ''alpha'' ''alpha_data'')]"]
    ask_validation_failure [where f = form_unknown and cfg = example_cfg
      and ev = "env_parsed listing_alpha child_paris" and evs = "[]" and v = listing_alpha
      and dd = "[(KStr (lit ''alpha''), descriptor ''alpha'' ''alpha_data'')]"]
  by (simp add: load_datasets_env_parsed datasets_dict_alpha dict_contains_def flash_event_def
      example_simps)

text \<open>
  The index is built before the form is validated, so with a blank question and a listing
  whose only descriptor has no \<^verbatim>\<open>"key"\<close> the handler raises \<open>KeyError\<close>: there is
  neither warning nor redirect.
\<close>

theorem ask_without_key_raises:
  "ask example_cfg (env_parsed listing_without_key child_paris) form_blank = ([], Inl KeyError)"
  by (simp add: ask_dict_fails [OF load_datasets_env_parsed datasets_dict_without_key])

text \<open>
  C2. When a request reaches the invoker and the child process ends with a non-zero exit
  code and error text \<open>s\<close>, the page is rendered with the answer
  \<^verbatim>\<open>"GraphRAG query failed:\n"\<close>, then the first 500 characters of \<open>s\<close>, then
  \<^verbatim>\<open>"..."\<close>; the three dots are appended whatever the length of \<open>s\<close>.
\<close>

theorem ask_failure_answer:
  assumes "SubprocessRun cmd \<in> set (fst (ask cfg ev f))"
    and "child ev cmd = Inr c" and "returncode c \<noteq> 0"
  shows "\<exists>ds q k m. snd (ask cfg ev f) =
           Inr (RenderAnswer ds
                  (lit ''GraphRAG query failed:'' @ [10] @ take 500 (stderr c) @ lit ''...'') q k m)"
proof -
  from assms(1) obtain evs v dd d p dp where
    l: "load_datasets ev = (evs, Inr v)" and dd: "datasets_dict_of v = Inr dd" and
    q: "strip (case form_question f of None \<Rightarrow> [] | Some q \<Rightarrow> q) \<noteq> []" and
    d: "map_of dd (key_of_field (form_dataset f)) = Some d" and
    p: "py_getitem d (lit ''path'') = Inr p" and
    dp: "path_truediv (DATA_ROOT cfg) p = Inr dp" and
    cmd: "cmd = graphrag_cmd cfg dp (strip (case form_question f of None \<Rightarrow> [] | Some q \<Rightarrow> q))
             (case form_method f of None \<Rightarrow> lit ''global'' | Some m \<Rightarrow> m)"
    by (rule ask_reaches_invoker)
  show ?thesis
    using q d p dp assms(2,3) unfolding cmd
    by (simp add: ask_unfold [OF l dd] Let_def failure_answer_def)
qed

theorem ask_failure_answer_witness:
  "snd (ask example_cfg (env_parsed listing_alpha child_fails_long) form_alpha) =
     Inr (RenderAnswer [descriptor ''alpha'' ''alpha_data'']
            (lit ''GraphRAG query failed:'' @ [10] @ replicate 500 120 @ lit ''...'')
            (lit ''What is X?'') (Some (lit ''alpha'')) (lit ''local'')) \<and>
   snd (ask example_cfg (env_parsed listing_alpha child_fails_short) form_alpha) =
     Inr (RenderAnswer [descriptor ''alpha'' ''alpha_data'']
            (lit ''GraphRAG query failed:'' @ [10] @ lit ''boom'' @ lit ''...'')
            (lit ''What is X?'') (Some (lit ''alpha'')) (lit ''local''))"
proof -
  have run_long: "SubprocessRun (alpha_cmd ''/srv/data/alpha_data'' ''local'')
      \<in> set (fst (ask example_cfg (env_parsed listing_alpha child_fails_long) form_alpha))"
    by (simp add: ask_alpha_events)
  have run_short: "SubprocessRun (alpha_cmd ''/srv/data/alpha_data'' ''local'')
      \<in> set (fst (ask example_cfg (env_parsed listing_alpha child_fails_short) form_alpha))"
    by (simp add: ask_alpha_events)
  have long: "child (env_parsed listing_alpha child_fails_long) (alpha_cmd ''/srv/data/alpha_data'' ''local'') =
      Inr \<lparr>returncode = 1, stdout = [], stderr = replicate 600 120\<rparr>"
    by (simp add: child_env_parsed child_fails_long_def)
  have short: "child (env_parsed listing_alpha child_fails_short) (alpha_cmd ''/srv/data/alpha_data'' ''local'') =
      Inr \<lparr>returncode = 1, stdout = [], stderr = lit ''boom''\<rparr>"
    by (simp add: child_env_parsed child_fails_short_def)
  from ask_failure_answer [OF run_long long] obtain ds q k m where
    l: "snd (ask example_cfg (env_parsed listing_alpha child_fails_long) form_alpha) =
        Inr (RenderAnswer ds (lit ''GraphRAG query failed:'' @ [10] @ replicate 500 120 @ lit ''...'') q k m)"
    by auto
  from ask_failure_answer [OF run_short short] obtain ds' q' k' m' where
    s: "snd (ask example_cfg (env_parsed listing_alpha child_fails_short) form_alpha) =
        Inr (RenderAnswer ds' (lit ''GraphRAG query failed:'' @ [10] @ lit ''boom'' @ lit ''...'') q' k' m')"
    by (auto simp: lit_def)
  have "ds = [descriptor ''alpha'' ''alpha_data''] \<and> q = lit ''What is X?'' \<and> k = Some (lit ''alpha'') \<and> m = lit ''local''"
    using l by (simp add: ask_unfold [OF load_datasets_env_parsed datasets_dict_alpha] Let_def
        example_simps child_fails_long_def dict_values_def)
  moreover have "ds' = [descriptor ''alpha'' ''alpha_data''] \<and> q' = lit ''What is X?'' \<and> k' = Some (lit ''alpha'') \<and> m' = lit ''local''"
    using s by (simp add: ask_unfold [OF load_datasets_env_parsed datasets_dict_alpha] Let_def
        example_simps child_fails_short_def dict_values_def)
  ultimately show ?thesis
    using l s by simp
qed

text \<open>
  C6. A request that passes validation, whose descriptor under the submitted key has the
  string \<open>p\<close> as its \<^verbatim>\<open>"path"\<close>, starts exactly one child process, with the argument
  vector \<^verbatim>\<open>sys.executable -m graphrag query --root\<close> \<open>str (DATA_ROOT / p)\<close>
  \<^verbatim>\<open>--method\<close> \<open>method\<close> \<^verbatim>\<open>--query\<close> \<open>question\<close>: the question and the method are
  single elements of the vector, passed as they are.
\<close>

theorem ask_invocation_argv:
  assumes "load_datasets ev = (evs, Inr v)" and "datasets_dict_of v = Inr dd"
    and "strip (case form_question f of None \<Rightarrow> [] | Some q \<Rightarrow> q) \<noteq> []"
    and "map_of dd (key_of_field (form_dataset f)) = Some d"
    and "py_getitem d (lit ''path'') = Inr (PStr p)"
  shows "fst (ask cfg ev f) =
           evs @ [SubprocessRun
                    [sys_executable cfg, lit ''-m'', lit ''graphrag'', lit ''query'',
                     lit ''--root'', path_str (parse_path (posixpath_join (path_str (DATA_ROOT cfg)) p)),
                     lit ''--method'', (case form_method f of None \<Rightarrow> lit ''global'' | Some m \<Rightarrow> m),
                     lit ''--query'', strip (case form_question f of None \<Rightarrow> [] | Some q \<Rightarrow> q)]]"
  using assms(3-5) by (simp add: ask_unfold [OF assms(1,2)] Let_def graphrag_cmd_def)

theorem ask_invocation_argv_witness:
  "fst (ask example_cfg (env_parsed listing_alpha child_paris) form_alpha) =
     [SubprocessRun (alpha_cmd ''/srv/data/alpha_data'' ''local'')]"
  using ask_invocation_argv [OF load_datasets_env_parsed datasets_dict_alpha question_alpha
      map_of_alpha descriptor_path, of example_cfg child_paris]
  by (simp add: example_simps)

text \<open>
  C9. When the form has no \<^verbatim>\<open>method\<close> field, the handler behaves as for the method
  \<^verbatim>\<open>"global"\<close>: every child process it starts is given the method \<^verbatim>\<open>"global"\<close>, and
  a rendered answer page reports the method \<^verbatim>\<open>"global"\<close>.
\<close>

theorem ask_default_method:
  assumes "form_method f = None"
  shows "ask cfg ev f = ask cfg ev (f\<lparr>form_method := Some (lit ''global'')\<rparr>) \<and>
         (\<forall>cmd. SubprocessRun cmd \<in> set (fst (ask cfg ev f)) \<longrightarrow>
            (\<exists>dp q. cmd = graphrag_cmd cfg dp q (lit ''global''))) \<and>
         (\<forall>ds a q k m. snd (ask cfg ev f) = Inr (RenderAnswer ds a q k m) \<longrightarrow> m = lit ''global'')"
proof (intro conjI allI impI)
  show "ask cfg ev f = ask cfg ev (f\<lparr>form_method := Some (lit ''global'')\<rparr>)"
    using assms by (simp add: ask_def)
next
  fix cmd
  assume "SubprocessRun cmd \<in> set (fst (ask cfg ev f))"
  then show "\<exists>dp q. cmd = graphrag_cmd cfg dp q (lit ''global'')"
  proof (rule ask_reaches_invoker)
    fix dp
    assume "cmd = graphrag_cmd cfg dp (strip (case form_question f of None \<Rightarrow> [] | Some q \<Rightarrow> q))
             (case form_method f of None \<Rightarrow> lit ''global'' | Some m \<Rightarrow> m)"
    with assms show ?thesis
      by simp blast
  qed
next
  fix ds a q k m
  assume "snd (ask cfg ev f) = Inr (RenderAnswer ds a q k m)"
  from ask_render_answer [OF this] assms show "m = lit ''global''"
    by simp
qed

theorem ask_default_method_witness:
  "form_method form_no_method = None \<and>
   ask example_cfg (env_parsed listing_alpha child_paris) form_no_method =
     ([SubprocessRun (alpha_cmd ''/srv/data/alpha_data'' ''global'')],
      Inr (RenderAnswer [descriptor ''alpha'' ''alpha_data''] (lit ''Paris is the capital.'')
             (lit ''What is X?'') (Some (lit ''alpha'')) (lit ''global'')))"
proof -
  have none: "form_method form_no_method = None"
    by (simp add: form_no_method_def)
  from ask_default_method [OF none, of example_cfg "env_parsed listing_alpha child_paris"]
  have "ask example_cfg (env_parsed listing_alpha child_paris) form_no_method =
        ask example_cfg (env_parsed listing_alpha child_paris)
          (form_no_method\<lparr>form_method := Some (lit ''global'')\<rparr>)"
    by simp
  with none show ?thesis
    by (simp add: ask_unfold [OF load_datasets_env_parsed datasets_dict_alpha] Let_def
        example_simps child_paris_def dict_values_def)
qed

text \<open>
  C10. When the \<^verbatim>\<open>"path"\<close> of the chosen descriptor starts with a slash, joining it to
  \<open>DATA_ROOT\<close> gives the path of that string alone, an absolute path in which
  \<open>DATA_ROOT\<close> does not occur, and the child process is started on it.
\<close>

theorem ask_absolute_path:
  assumes "load_datasets ev = (evs, Inr v)" and "datasets_dict_of v = Inr dd"
    and "strip (case form_question f of None \<Rightarrow> [] | Some q \<Rightarrow> q) \<noteq> []"
    and "map_of dd (key_of_field (form_dataset f)) = Some d"
    and "py_getitem d (lit ''path'') = Inr (PStr p)"
    and "take 1 p = [47]"
  shows "path_truediv (DATA_ROOT cfg) (PStr p) = Inr (parse_path p) \<and>
         is_absolute (parse_path p) \<and>
         fst (ask cfg ev f) =
           evs @ [SubprocessRun
                    (graphrag_cmd cfg (parse_path p)
                       (strip (case form_question f of None \<Rightarrow> [] | Some q \<Rightarrow> q))
                       (case form_method f of None \<Rightarrow> lit ''global'' | Some m \<Rightarrow> m))]"
  using assms(3-6)
  by (simp add: ask_unfold [OF assms(1,2)] Let_def posixpath_join_def parse_path_absolute)

theorem ask_absolute_path_witness:
  "path_truediv (DATA_ROOT example_cfg) (PStr (lit ''/etc'')) = Inr (Path [47] [lit ''etc'']) \<and>
   is_absolute (Path [47] [lit ''etc'']) \<and>
   fst (ask example_cfg (env_parsed listing_absolute child_paris) form_alpha) =
     [SubprocessRun (alpha_cmd ''/etc'' ''local'')]"
proof -
  have slash: "take 1 (lit ''/etc'') = [47]"
    by (simp add: lit_def)
  from ask_absolute_path [OF load_datasets_env_parsed datasets_dict_absolute question_alpha
      map_of_alpha descriptor_path slash, of example_cfg child_paris]
  show ?thesis
    by (simp add: example_simps)
qed

text \<open>
  C7. \<open>index\<close> raises exactly when \<open>load_datasets\<close> raises, and renders the form with
  the loaded value otherwise. \<open>ask\<close> returns a response (a redirect or a rendered page)
  whenever \<open>load_datasets\<close> returns, the key index is built without an exception, the
  descriptor under the submitted key, if there is one, has a string as its
  \<^verbatim>\<open>"path"\<close>, and every call of \<^verbatim>\<open>subprocess.run\<close> that the handler makes starts the
  process, which runs to its end, with whatever exit code, and whose captured output
  is text.
\<close>

theorem handlers_respond:
  "((\<exists>e. snd (index ev) = Inl e) \<longleftrightarrow> (\<exists>e. snd (load_datasets ev) = Inl e)) \<and>
   (snd (load_datasets ev) = Inr v \<longrightarrow> snd (index ev) = Inr (RenderForm v)) \<and>
   (load_datasets ev = (evs, Inr v) \<and> datasets_dict_of v = Inr dd \<and>
    (\<forall>d. map_of dd (key_of_field (form_dataset f)) = Some d \<longrightarrow>
         (\<exists>p. py_getitem d (lit ''path'') = Inr (PStr p))) \<and>
    (\<forall>cmd. SubprocessRun cmd \<in> set (fst (ask cfg ev f)) \<longrightarrow> (\<exists>c. child ev cmd = Inr c)) \<longrightarrow>
      (\<exists>r. snd (ask cfg ev f) = Inr r))"
proof (intro conjI impI)
  show "(\<exists>e. snd (index ev) = Inl e) \<longleftrightarrow> (\<exists>e. snd (load_datasets ev) = Inl e)"
    by (cases "load_datasets ev"; cases "snd (load_datasets ev)")
       (auto simp: index_def io_simps io_return_def)
next
  assume "snd (load_datasets ev) = Inr v"
  then show "snd (index ev) = Inr (RenderForm v)"
    by (cases "load_datasets ev") (auto simp: index_def io_simps io_return_def)
next
  assume a: "load_datasets ev = (evs, Inr v) \<and> datasets_dict_of v = Inr dd \<and>
    (\<forall>d. map_of dd (key_of_field (form_dataset f)) = Some d \<longrightarrow>
         (\<exists>p. py_getitem d (lit ''path'') = Inr (PStr p))) \<and>
    (\<forall>cmd. SubprocessRun cmd \<in> set (fst (ask cfg ev f)) \<longrightarrow> (\<exists>c. child ev cmd = Inr c))"
  then have l: "load_datasets ev = (evs, Inr v)" and dd: "datasets_dict_of v = Inr dd"
    and p: "\<And>d. map_of dd (key_of_field (form_dataset f)) = Some d \<Longrightarrow>
         \<exists>p. py_getitem d (lit ''path'') = Inr (PStr p)"
    and c: "\<And>cmd. SubprocessRun cmd \<in> set (fst (ask cfg ev f)) \<Longrightarrow> \<exists>c. child ev cmd = Inr c"
    by blast+
  show "\<exists>r. snd (ask cfg ev f) = Inr r"
  proof (cases "strip (case form_question f of None \<Rightarrow> [] | Some q \<Rightarrow> q) = [] \<or>
     map_of dd (key_of_field (form_dataset f)) = None")
    case True
    then show ?thesis
      by (auto simp: ask_unfold [OF l dd] Let_def)
  next
    case False
    then obtain d where d: "map_of dd (key_of_field (form_dataset f)) = Some d"
      by auto
    from p [OF d] obtain pth where pth: "py_getitem d (lit ''path'') = Inr (PStr pth)"
      by auto
    from False d pth have "SubprocessRun
        (graphrag_cmd cfg (parse_path (posixpath_join (path_str (DATA_ROOT cfg)) pth))
          (strip (case form_question f of None \<Rightarrow> [] | Some q \<Rightarrow> q))
          (case form_method f of None \<Rightarrow> lit ''global'' | Some m \<Rightarrow> m))
        \<in> set (fst (ask cfg ev f))"
      by (simp add: ask_unfold [OF l dd] Let_def)
    from c [OF this] obtain cp where
      "child ev (graphrag_cmd cfg (parse_path (posixpath_join (path_str (DATA_ROOT cfg)) pth))
          (strip (case form_question f of None \<Rightarrow> [] | Some q \<Rightarrow> q))
          (case form_method f of None \<Rightarrow> lit ''global'' | Some m \<Rightarrow> m)) = Inr cp"
      by blast
    with False d pth show ?thesis
      by (simp add: ask_unfold [OF l dd] Let_def)
  qed
qed

theorem handlers_respond_witness:
  "snd (index env_missing) = Inr (RenderForm (PList [])) \<and>
   (\<exists>r. snd (ask example_cfg env_missing form_alpha) = Inr r) \<and>
   (\<exists>r. snd (ask example_cfg (env_parsed listing_alpha child_fails_short) form_alpha) = Inr r)"
proof -
  have m: "snd (load_datasets env_missing) = Inr (PList [])"
    by (simp add: load_datasets_env_missing)
  have a: "load_datasets env_missing =
      ([Printed (lit ''[load_datasets] listing.json not found'')], Inr (PList [])) \<and>
    datasets_dict_of (PList []) = Inr [] \<and>
    (\<forall>d. map_of [] (key_of_field (form_dataset form_alpha)) = Some d \<longrightarrow>
         (\<exists>p. py_getitem d (lit ''path'') = Inr (PStr p))) \<and>
    (\<forall>cmd. SubprocessRun cmd \<in> set (fst (ask example_cfg env_missing form_alpha)) \<longrightarrow>
         (\<exists>c. child env_missing cmd = Inr c))"
    by (simp add: load_datasets_env_missing datasets_dict_empty child_env_missing child_paris_def)
  have b: "load_datasets (env_parsed listing_alpha child_fails_short) = ([], Inr listing_alpha) \<and>
    datasets_dict_of listing_alpha = Inr [(KStr (lit ''alpha''), descriptor ''alpha'' ''alpha_data'')] \<and>
    (\<forall>d. map_of [(KStr (lit ''alpha''), descriptor ''alpha'' ''alpha_data'')]
            (key_of_field (form_dataset form_alpha)) = Some d \<longrightarrow>
         (\<exists>p. py_getitem d (lit ''path'') = Inr (PStr p))) \<and>
    (\<forall>cmd. SubprocessRun cmd
          \<in> set (fst (ask example_cfg (env_parsed listing_alpha child_fails_short) form_alpha)) \<longrightarrow>
         (\<exists>c. child (env_parsed listing_alpha child_fails_short) cmd = Inr c))"
    by (simp add: load_datasets_env_parsed datasets_dict_alpha map_of_alpha descriptor_path
        child_env_parsed child_fails_short_def)
  from handlers_respond [of env_missing "PList []"] m
  have "snd (index env_missing) = Inr (RenderForm (PList []))"
    by blast
  moreover from handlers_respond [of env_missing _ _ _ form_alpha example_cfg] a
  have "\<exists>r. snd (ask example_cfg env_missing form_alpha) = Inr r"
    by blast
  moreover from handlers_respond [of "env_parsed listing_alpha child_fails_short" _ _ _ form_alpha example_cfg] b
  have "\<exists>r. snd (ask example_cfg (env_parsed listing_alpha child_fails_short) form_alpha) = Inr r"
    by blast
  ultimately show ?thesis
    by blast
qed

text \<open>
  Neither handler catches what \<open>load_datasets\<close> lets through: with a listing file that
  exists and cannot be opened, \<^verbatim>\<open>GET /\<close> ends in \<open>OSError\<close>.
\<close>

theorem index_unreadable_raises:
  "index env_unreadable = ([], Inl OSError)"
  by (simp add: index_def load_datasets_unfold env_unreadable_def io_simps)

end
